theory Spec2Isabelle
  imports Main
begin

section \<open>A commit-message assistant: shallow embedding of \<^verbatim>\<open>src/app.ts\<close>\<close>

text \<open>
  The program is a single sequential pipeline: probe the repository, pick a
  generation backend, resolve a diff through a \<^verbatim>\<open>git\<close> subprocess, ask the
  backend for a message, print it. Everything it does beyond computing strings is
  an effect on the outside world, so every function of the model returns the list
  of effects it performed, in order, together with its result; a JavaScript
  \<^verbatim>\<open>throw\<close> is the \<open>Inl\<close> branch of a sum.

  Text is modelled as \<open>string\<close>; a \<open>char\<close> stands for one code unit below 256
  of the JavaScript string. The captured output of a subprocess is held as the
  text that \<^verbatim>\<open>new TextDecoder().decode\<close> yields from it.
\<close>

subsection \<open>JavaScript string helpers\<close>

text \<open>\<^verbatim>\<open>a || b\<close> on a value that is a string or \<^verbatim>\<open>undefined\<close>: the empty
  string is falsy, as \<^verbatim>\<open>undefined\<close> is.\<close>

definition or_else :: "string option \<Rightarrow> string \<Rightarrow> string" where
  "or_else v d = (case v of None \<Rightarrow> d | Some s \<Rightarrow> if s = [] then d else s)"

text \<open>\<^verbatim>\<open>s.startsWith(p)\<close>.\<close>

definition startsWith :: "string \<Rightarrow> string \<Rightarrow> bool" where
  "startsWith s p = (take (length p) s = p)"

text \<open>\<^verbatim>\<open>s.split(sep)\<close> for a separator of one character: the pieces between
  the separators, empty pieces kept, always at least one piece.\<close>

fun split :: "char \<Rightarrow> string \<Rightarrow> string list" where
  "split sep [] = [[]]"
| "split sep (c # cs) =
     (if c = sep then [] # split sep cs
      else (case split sep cs of
              [] \<Rightarrow> [[c]]
            | p # ps \<Rightarrow> (c # p) # ps))"

text \<open>\<^verbatim>\<open>xs[i]\<close>: \<^verbatim>\<open>undefined\<close> (here \<open>None\<close>) out of range.\<close>

fun at_index :: "'a list \<Rightarrow> nat \<Rightarrow> 'a option" where
  "at_index [] i = None"
| "at_index (x # xs) 0 = Some x"
| "at_index (x # xs) (Suc i) = at_index xs i"

text \<open>\<^verbatim>\<open>xs.join(sep)\<close>.\<close>

fun join :: "string \<Rightarrow> string list \<Rightarrow> string" where
  "join sep [] = []"
| "join sep [x] = x"
| "join sep (x # y # ys) = x @ sep @ join sep (y # ys)"

text \<open>The code units below 256 that \<^verbatim>\<open>trim\<close> removes: tab, line feed,
  vertical tab, form feed, carriage return, space and the no-break space.\<close>

definition is_space :: "char \<Rightarrow> bool" where
  "is_space c = (c = CHR 0x09 \<or> c = CHR 0x0A \<or> c = CHR 0x0B \<or> c = CHR 0x0C
      \<or> c = CHR 0x0D \<or> c = CHR 0x20 \<or> c = CHR 0xA0)"

text \<open>\<^verbatim>\<open>s.trim()\<close>.\<close>

definition trim :: "string \<Rightarrow> string" where
  "trim s = rev (dropWhile is_space (rev (dropWhile is_space s)))"

subsection \<open>Errors, effects and the outside world\<close>

text \<open>Every \<^verbatim>\<open>throw new Error(...)\<close> of the source is one constructor, carrying
  the variable part of its message; \<open>RuntimeError\<close> is an error raised by the
  runtime itself (a subprocess that cannot be started, a rejected request).\<close>

datatype error =
    MissingCredential string
  | BackendRequestFailed string
  | MalformedResponse string
  | NotImplemented
  | InvalidSelector
  | SourceCommandFailed string
  | UnsupportedProvider string
  | InvalidProvider
  | RuntimeError string

datatype provider = OpenAI | Claude | Google

text \<open>What \<^verbatim>\<open>await new Deno.Command(...).output()\<close> gives: the promise rejects
  when the executable cannot be started, otherwise it resolves to the exit code
  and the two captured streams.\<close>

datatype command_output =
    SpawnFailed string
  | Completed (code: int) (stdout: string) (stderr: string)

text \<open>The answer of the chat-completion endpoint, by the branch of
  \<^verbatim>\<open>generateMessage\<close> it leads to: the request or the parsing of its body
  throws; the status is not 2xx; \<^verbatim>\<open>choices\<close> or the nested \<^verbatim>\<open>content\<close> is
  missing; \<^verbatim>\<open>content\<close> is a string; \<^verbatim>\<open>content\<close> is a truthy value that is no
  string.\<close>

datatype fetch_outcome =
    FetchThrows string
  | NotOk string
  | NoContent
  | Content string
  | ContentNotString

text \<open>The answer of the Gemini client: \<^verbatim>\<open>generateContent\<close> or
  \<^verbatim>\<open>response.text()\<close> throws, or a text comes back.\<close>

datatype sdk_outcome =
    SdkThrows string
  | SdkText string

text \<open>The effects, as the source performs them. \<open>Spawn exe args path\<close> is one
  \<^verbatim>\<open>Deno.Command(exe, {args, env: {PATH: path}}).output()\<close>; \<open>Construct p\<close>
  marks the entry into the factory of backend \<open>p\<close>, \<open>Generate p diff\<close> the
  entry into its \<^verbatim>\<open>generateMessage\<close>; \<open>HttpPost key prompt\<close> is the
  \<^verbatim>\<open>fetch\<close> to the chat-completion endpoint, \<open>SdkCall key prompt\<close> the
  \<^verbatim>\<open>generateContent\<close> call.\<close>

datatype event =
    Log string
  | LogError string
  | Spawn string "string list" string
  | Exit int
  | Construct provider
  | Generate provider string
  | HttpPost string string
  | SdkCall string string
  | SetTimeout nat

record world =
  env :: "string \<Rightarrow> string option"
  run :: "string \<Rightarrow> string list \<Rightarrow> string \<Rightarrow> command_output"
  openai_api :: "string \<Rightarrow> string \<Rightarrow> fetch_outcome"
  google_api :: "string \<Rightarrow> string \<Rightarrow> sdk_outcome"

type_synonym 'a io = "event list \<times> (error + 'a)"

text \<open>The text of the \<^verbatim>\<open>Error\<close> each constructor stands for.\<close>

fun error_message :: "error \<Rightarrow> string" where
  "error_message (MissingCredential k) =
     k @ '' environment variable is not set. Please set it using '' @ [CHR 0x22]
       @ ''export '' @ k @ ''=your-key'' @ [CHR 0x22]"
| "error_message (BackendRequestFailed t) = ''OpenAI API request failed: '' @ t"
| "error_message (MalformedResponse m) = m"
| "error_message NotImplemented = ''Claude service not implemented yet''"
| "error_message InvalidSelector = ''Invalid source''"
| "error_message (SourceCommandFailed e) = ''Git command failed: '' @ e"
| "error_message (UnsupportedProvider a) =
     ''Unsupported AI provider: '' @ a @ ''. Supported providers: ''
       @ join '', '' [''openai'', ''claude'', ''google'']"
| "error_message InvalidProvider = ''Invalid AI provider''"
| "error_message (RuntimeError m) = m"

subsection \<open>The version-control executable and the repository probe\<close>

text \<open>\<^verbatim>\<open>const gitCommand = Deno.env.get('GIT_COMMAND') || '/usr/bin/git'\<close>.\<close>

definition gitCommand :: "world \<Rightarrow> string" where
  "gitCommand w = or_else (env w ''GIT_COMMAND'') ''/usr/bin/git''"

text \<open>\<^verbatim>\<open>Deno.env.get('PATH') || ''\<close>, the environment handed to the subprocess.\<close>

definition path_env :: "world \<Rightarrow> string" where
  "path_env w = or_else (env w ''PATH'') []"

text \<open>\<^verbatim>\<open>isGitRepository\<close>: one subprocess, no handler around it.\<close>

definition isGitRepository :: "world \<Rightarrow> bool io" where
  "isGitRepository w =
     (let args = [''rev-parse'', ''--is-inside-work-tree''] in
      ([Spawn (gitCommand w) args (path_env w)],
       (case run w (gitCommand w) args (path_env w) of
          SpawnFailed m \<Rightarrow> Inl (RuntimeError m)
        | Completed c out err \<Rightarrow> Inr (c = 0))))"

subsection \<open>The diff source resolver\<close>

text \<open>Lines 89 to 99 of \<^verbatim>\<open>getDiff\<close>: the argument vector for a selector. The
  \<open>None\<close> branch of the index stands for \<^verbatim>\<open>undefined\<close>; a string that starts
  with \<^verbatim>\<open>commit:\<close> always has a second piece, so it is never taken.\<close>

definition getDiff_cmd :: "string \<Rightarrow> error + string list" where
  "getDiff_cmd source =
     (if source = ''staged'' then Inr [''diff'', ''--cached'']
      else if source = ''last'' then Inr [''show'', ''HEAD'']
      else if startsWith source ''commit:'' then
        (case at_index (split CHR '':'' source) 1 of
           None \<Rightarrow> Inl (RuntimeError ''commitHash is undefined'')
         | Some commitHash \<Rightarrow> Inr [''show'', commitHash])
      else Inl InvalidSelector)"

text \<open>\<^verbatim>\<open>getDiff\<close>: the command line is logged, the subprocess runs, a non-zero
  exit throws with the captured error stream, a zero exit returns the captured
  output.\<close>

definition getDiff :: "world \<Rightarrow> string \<Rightarrow> string io" where
  "getDiff w source =
     (case getDiff_cmd source of
        Inl e \<Rightarrow> ([], Inl e)
      | Inr cmd \<Rightarrow>
          ([Log (''Running git command: '' @ join '' '' (gitCommand w # cmd)),
            Spawn (gitCommand w) cmd (path_env w)],
           (case run w (gitCommand w) cmd (path_env w) of
              SpawnFailed m \<Rightarrow> Inl (RuntimeError m)
            | Completed c out err \<Rightarrow>
                if c \<noteq> 0 then Inl (SourceCommandFailed err)
                else Inr out)))"

subsection \<open>The generation backends\<close>

text \<open>A backend is the closure its factory returns; the two real ones capture
  the credential.\<close>

datatype service = OpenAIService string | GoogleService string | ClaudeService

text \<open>The prompt template shared by the two real backends.\<close>

definition prompt :: "string \<Rightarrow> string" where
  "prompt diff =
     ''Write a concise Git commit message that summarizes the following code changes:''
       @ [CHR 0x0A, CHR 0x0A] @ diff"

definition createOpenAIService :: "world \<Rightarrow> service io" where
  "createOpenAIService w =
     (let apiKey = or_else (env w ''OPENAI_API_KEY'') [] in
      ([Construct OpenAI],
       if apiKey = [] then Inl (MissingCredential ''OPENAI_API_KEY'')
       else Inr (OpenAIService apiKey)))"

definition createGoogleService :: "world \<Rightarrow> service io" where
  "createGoogleService w =
     (let apiKey = or_else (env w ''GOOGLE_API_KEY'') [] in
      ([Construct Google],
       if apiKey = [] then Inl (MissingCredential ''GOOGLE_API_KEY'')
       else Inr (GoogleService apiKey)))"

definition createClaudeService :: "service io" where
  "createClaudeService = ([Construct Claude], Inr ClaudeService)"

definition openai_generateMessage :: "world \<Rightarrow> string \<Rightarrow> string \<Rightarrow> string io" where
  "openai_generateMessage w apiKey diff =
     ([Generate OpenAI diff, HttpPost apiKey (prompt diff)],
      (case openai_api w apiKey (prompt diff) of
         FetchThrows m \<Rightarrow> Inl (RuntimeError m)
       | NotOk t \<Rightarrow> Inl (BackendRequestFailed t)
       | NoContent \<Rightarrow> Inl (MalformedResponse ''Invalid response format from OpenAI API'')
       | Content c \<Rightarrow>
           if c = [] then Inl (MalformedResponse ''Invalid response format from OpenAI API'')
           else Inr (trim c)
       | ContentNotString \<Rightarrow>
           Inl (RuntimeError ''data.choices[0].message.content.trim is not a function'')))"

definition google_generateMessage :: "world \<Rightarrow> string \<Rightarrow> string \<Rightarrow> string io" where
  "google_generateMessage w apiKey diff =
     ([Generate Google diff, SdkCall apiKey (prompt diff)],
      (case google_api w apiKey (prompt diff) of
         SdkThrows m \<Rightarrow> Inl (RuntimeError m)
       | SdkText t \<Rightarrow>
           if t = [] then Inl (MalformedResponse ''No content generated from Google Gemini API'')
           else Inr (trim t)))"

text \<open>The placeholder backend: a zero-length timer, then the throw.\<close>

definition claude_generateMessage :: "string \<Rightarrow> string io" where
  "claude_generateMessage diff = ([Generate Claude diff, SetTimeout 0], Inl NotImplemented)"

text \<open>\<^verbatim>\<open>aiService.generateMessage(diff)\<close>.\<close>

fun generateMessage :: "world \<Rightarrow> service \<Rightarrow> string \<Rightarrow> string io" where
  "generateMessage w (OpenAIService apiKey) diff = openai_generateMessage w apiKey diff"
| "generateMessage w (GoogleService apiKey) diff = google_generateMessage w apiKey diff"
| "generateMessage w ClaudeService diff = claude_generateMessage diff"

subsection \<open>The orchestrator\<close>

text \<open>The parsed command line (\<open>help_flag\<close> is \<^verbatim>\<open>args.help\<close>): \<^verbatim>\<open>parseArgs\<close> with its string and
  boolean options.\<close>

record args =
  ai :: string
  source :: string
  help_flag :: bool
  verbose :: bool
  command :: bool

text \<open>Sequencing: the effects of both steps in order; a throw ends the chain.\<close>

definition bind_io :: "'a io \<Rightarrow> ('a \<Rightarrow> 'b io) \<Rightarrow> 'b io" where
  "bind_io m f =
     (case m of
        (t, Inl e) \<Rightarrow> (t, Inl e)
      | (t, Inr x) \<Rightarrow> (case f x of (t', r) \<Rightarrow> (t @ t', r)))"

definition usage :: string where
  "usage = ''Usage: app-name [options]'' @ [CHR 0x0A, CHR 0x0A]
     @ ''Options:'' @ [CHR 0x0A]
     @ ''  --ai <provider>    Select AI provider (openai, claude, google)'' @ [CHR 0x0A]
     @ ''  --source <source>  Specify the source of changes (staged, commit:<hash>, last)'' @ [CHR 0x0A]
     @ ''  --verbose          Show the diff alongside the message'' @ [CHR 0x0A]
     @ ''  --command          Output the full git commit command'' @ [CHR 0x0A]
     @ ''  --help             Show this help message'' @ [CHR 0x0A]"

definition supportedProviders :: "string list" where
  "supportedProviders = [''openai'', ''claude'', ''google'']"

text \<open>The \<^verbatim>\<open>switch\<close> of lines 156 to 169.\<close>

definition selectService :: "world \<Rightarrow> string \<Rightarrow> service io" where
  "selectService w p =
     (if p = ''openai'' then createOpenAIService w
      else if p = ''claude'' then createClaudeService
      else if p = ''google'' then createGoogleService w
      else ([], Inl InvalidProvider))"

definition main :: "world \<Rightarrow> args \<Rightarrow> unit io" where
  "main w a =
     (if help_flag a then ([Log usage, Exit 0], Inr ())
      else
        bind_io (isGitRepository w) (\<lambda>repo.
          if \<not> repo then ([LogError ''Not a Git repository.''], Inr ())
          else if ai a \<notin> set supportedProviders then ([], Inl (UnsupportedProvider (ai a)))
          else
            bind_io (selectService w (ai a)) (\<lambda>aiService.
            bind_io (getDiff w (source a)) (\<lambda>diff.
              if trim diff = [] then ([Log ''No changes to generate a message for.''], Inr ())
              else
                bind_io (if verbose a then ([Log ''Original Diff:'', Log diff], Inr ())
                         else ([], Inr ())) (\<lambda>_.
                bind_io (generateMessage w aiService diff) (\<lambda>message.
                  ([Log ''Suggested Commit Message:'', Log message]
                     @ (if command a
                        then [Log (CHR 0x0A # ''Run the following command to commit:''),
                              Log (''git commit -m '' @ [CHR 0x22] @ message @ [CHR 0x22])]
                        else []),
                   Inr ())))))))"

text \<open>\<^verbatim>\<open>main().catch(error => console.error('Error:', error.message))\<close>: the whole
  run, as the list of its effects.\<close>

definition program :: "world \<Rightarrow> args \<Rightarrow> event list" where
  "program w a =
     (case main w a of
        (t, Inl e) \<Rightarrow> t @ [LogError (''Error: '' @ error_message e)]
      | (t, Inr u) \<Rightarrow> t)"

subsection \<open>Observations and sample environments\<close>

text \<open>The lines written by \<^verbatim>\<open>console.log\<close>, in order.\<close>

fun printed :: "event list \<Rightarrow> string list" where
  "printed [] = []"
| "printed (Log s # es) = s # printed es"
| "printed (e # es) = printed es"

text \<open>The lines of the standard output: each \<^verbatim>\<open>console.log\<close> call writes its
  argument and a line feed, so the argument of one call is as many lines as its
  line feeds cut it into.\<close>

definition output_lines :: "event list \<Rightarrow> string list" where
  "output_lines t = concat (map (split (CHR 0x0A)) (printed t))"

text \<open>A world for concrete runs: the environment variables \<open>vars\<close>, a
  version-control tool that answers \<open>probe\<close> to the tree-membership query and
  \<open>other\<close> to every other one, and two endpoints that answer \<open>reply\<close>.\<close>

definition sample_world ::
  "(string \<times> string) list \<Rightarrow> command_output \<Rightarrow> command_output \<Rightarrow> string \<Rightarrow> world" where
  "sample_world vars probe other reply =
     \<lparr>env = map_of vars,
      run = (\<lambda>exe args path.
               if args = [''rev-parse'', ''--is-inside-work-tree''] then probe else other),
      openai_api = (\<lambda>key p. Content reply), google_api = (\<lambda>key p. SdkText reply)\<rparr>"

section \<open>Properties\<close>

subsection \<open>Splitting a selector\<close>

lemma split_nonempty: "split sep s \<noteq> []"
  by (induction s) (auto split: list.splits)

lemma hd_split: "hd (split sep s) = takeWhile (\<lambda>c. c \<noteq> sep) s"
proof (induction s)
  case Nil
  show ?case by simp
next
  case (Cons c cs)
  show ?case
  proof (cases "c = sep")
    case True
    then show ?thesis by simp
  next
    case False
    obtain p ps where sp: "split sep cs = p # ps"
      using split_nonempty [of sep cs] by (cases "split sep cs") auto
    with Cons False show ?thesis by simp
  qed
qed

lemma split_append_sep:
  "sep \<notin> set p \<Longrightarrow> split sep (p @ sep # s) = p # split sep s"
  by (induction p) auto

lemma split_commit:
  "at_index (split CHR '':'' (''commit:'' @ h)) 1 = Some (takeWhile (\<lambda>c. c \<noteq> CHR '':'') h)"
proof -
  have "split CHR '':'' (''commit'' @ CHR '':'' # h) = ''commit'' # split CHR '':'' h"
    by (rule split_append_sep) simp
  moreover obtain p ps where sp: "split CHR '':'' h = p # ps"
    using split_nonempty [of "CHR '':''" h] by (cases "split CHR '':'' h") auto
  moreover have "p = takeWhile (\<lambda>c. c \<noteq> CHR '':'') h"
    using hd_split [of "CHR '':''" h] sp by simp
  ultimately show ?thesis by simp
qed

lemma startsWith_iff: "startsWith s p \<longleftrightarrow> (\<exists>r. s = p @ r)"
  unfolding startsWith_def
  by (metis append_eq_conv_conj append_take_drop_id)

text \<open>The undefined-index branch of \<open>getDiff_cmd\<close> is dead: every selector that
  starts with \<^verbatim>\<open>commit:\<close> gets the piece between its first and second colon.\<close>

lemma getDiff_cmd_commit:
  "getDiff_cmd (''commit:'' @ h) = Inr [''show'', takeWhile (\<lambda>c. c \<noteq> CHR '':'') h]"
proof -
  have "startsWith (''commit:'' @ h) ''commit:''"
    unfolding startsWith_iff by blast
  moreover have "''commit:'' @ h \<noteq> ''staged''" "''commit:'' @ h \<noteq> ''last''"
    by simp_all
  ultimately show ?thesis
    unfolding getDiff_cmd_def using split_commit [of h] by simp
qed

lemma getDiff_cmd_staged: "getDiff_cmd ''staged'' = Inr [''diff'', ''--cached'']"
  by (simp add: getDiff_cmd_def)

lemma getDiff_cmd_last: "getDiff_cmd ''last'' = Inr [''show'', ''HEAD'']"
  by (simp add: getDiff_cmd_def)

lemma getDiff_run:
  "getDiff_cmd s = Inr cmd \<Longrightarrow>
   getDiff w s =
     ([Log (''Running git command: '' @ join '' '' (gitCommand w # cmd)),
       Spawn (gitCommand w) cmd (path_env w)],
      (case run w (gitCommand w) cmd (path_env w) of
         SpawnFailed m \<Rightarrow> Inl (RuntimeError m)
       | Completed c out err \<Rightarrow> if c \<noteq> 0 then Inl (SourceCommandFailed err) else Inr out))"
  by (simp add: getDiff_def)

subsection \<open>The resolver\<close>

text \<open>
  C1, as stated, at the selector \<^verbatim>\<open>commit:HEAD:README.md\<close>: the claim asks for the
  query \<^verbatim>\<open>show HEAD:README.md\<close>, the resolver issues \<^verbatim>\<open>show HEAD\<close>, since it
  keeps only the piece between the first and the second colon.
\<close>

theorem getDiff_colon_counterexample:
  "getDiff (sample_world [] (Completed 0 ''true'' [])
         (Completed 0 ''blob'' []) ''Fix bug'')
       ''commit:HEAD:README.md''
     = ([Log ''Running git command: /usr/bin/git show HEAD'',
         Spawn ''/usr/bin/git'' [''show'', ''HEAD''] []],
        Inr ''blob'')
   \<and> Spawn ''/usr/bin/git'' [''show'', ''HEAD:README.md''] []
       \<notin> set (fst (getDiff (sample_world [] (Completed 0 ''true'' [])
         (Completed 0 ''blob'' []) ''Fix bug'')
                 ''commit:HEAD:README.md''))"
  by (simp add: getDiff_def getDiff_cmd_def startsWith_def sample_world_def
        gitCommand_def path_env_def or_else_def)

text \<open>
  C1 (amended): the resolver maps \<^verbatim>\<open>staged\<close> to the query \<^verbatim>\<open>diff --cached\<close>,
  \<^verbatim>\<open>last\<close> to \<^verbatim>\<open>show HEAD\<close>, and \<^verbatim>\<open>commit:h\<close> to \<^verbatim>\<open>show\<close> of the part of
  \<open>h\<close> before its first colon, which is \<open>h\<close> itself when \<open>h\<close> has no colon. It
  logs the command line, runs exactly that one subprocess, and on exit code zero
  returns the captured standard output unchanged.
\<close>

theorem getDiff_query:
  assumes "(s = ''staged'' \<and> cmd = [''diff'', ''--cached''])
         \<or> (s = ''last'' \<and> cmd = [''show'', ''HEAD''])
         \<or> (s = ''commit:'' @ h \<and> cmd = [''show'', takeWhile (\<lambda>c. c \<noteq> CHR '':'') h])"
      and "run w (gitCommand w) cmd (path_env w) = Completed 0 out err"
  shows "getDiff w s =
           ([Log (''Running git command: '' @ join '' '' (gitCommand w # cmd)),
             Spawn (gitCommand w) cmd (path_env w)],
            Inr out)
         \<and> (CHR '':'' \<notin> set h \<longrightarrow> takeWhile (\<lambda>c. c \<noteq> CHR '':'') h = h)"
proof -
  from assms(1) have "getDiff_cmd s = Inr cmd"
    using getDiff_cmd_staged getDiff_cmd_last getDiff_cmd_commit [of h] by auto
  then show ?thesis
    using assms(2) by (auto simp: getDiff_run)
qed

theorem getDiff_query_witness:
  "getDiff (sample_world [] (Completed 0 ''true'' [])
         (Completed 0 ''  diff --git a/x b/x  '' []) ''Fix bug'')
       ''commit:abc123''
     = ([Log ''Running git command: /usr/bin/git show abc123'',
         Spawn ''/usr/bin/git'' [''show'', ''abc123''] []],
        Inr ''  diff --git a/x b/x  '')"
  using getDiff_query [of "''commit:abc123''" "[''show'', ''abc123'']" "''abc123''"
      "sample_world [] (Completed 0 ''true'' [])
         (Completed 0 ''  diff --git a/x b/x  '' []) ''Fix bug''"
      "''  diff --git a/x b/x  ''" "[]"]
  by (simp add: sample_world_def gitCommand_def path_env_def or_else_def)

text \<open>
  C5: a selector that is not \<^verbatim>\<open>staged\<close>, not \<^verbatim>\<open>last\<close> and does not start with
  \<^verbatim>\<open>commit:\<close> makes the resolver fail with the invalid-selector error, with no
  effect performed at all: no subprocess is spawned, nothing is logged.
\<close>

theorem getDiff_invalid:
  assumes "s \<noteq> ''staged''" and "s \<noteq> ''last''" and "\<not> startsWith s ''commit:''"
  shows "getDiff w s = ([], Inl InvalidSelector)"
  using assms by (simp add: getDiff_def getDiff_cmd_def)

theorem getDiff_invalid_witness:
  "getDiff (sample_world [] (Completed 0 ''true'' [])
         (Completed 0 ''blob'' []) ''Fix bug'') ''foo''
     = ([], Inl InvalidSelector)"
  using getDiff_invalid [of "''foo''"
      "sample_world [] (Completed 0 ''true'' [])
         (Completed 0 ''blob'' []) ''Fix bug''"]
  by (simp add: startsWith_def)

text \<open>
  C6: when the subprocess of a recognised selector exits with a non-zero code,
  the resolver fails with the source-command error; its message is
  \<^verbatim>\<open>Git command failed: \<close> followed by the captured standard error, verbatim, and
  no diff text is returned, whatever was captured on standard output.
\<close>

theorem getDiff_failure:
  assumes "getDiff_cmd s = Inr cmd"
      and "run w (gitCommand w) cmd (path_env w) = Completed c out err"
      and "c \<noteq> 0"
  shows "getDiff w s =
           ([Log (''Running git command: '' @ join '' '' (gitCommand w # cmd)),
             Spawn (gitCommand w) cmd (path_env w)],
            Inl (SourceCommandFailed err))
         \<and> error_message (SourceCommandFailed err) = ''Git command failed: '' @ err"
  using assms by (simp add: getDiff_run)

theorem getDiff_failure_witness:
  "getDiff (sample_world [] (Completed 0 ''true'' [])
         (Completed 1 ''partial'' ''fatal: bad object abc123'') ''Fix bug'')
       ''commit:abc123''
     = ([Log ''Running git command: /usr/bin/git show abc123'',
         Spawn ''/usr/bin/git'' [''show'', ''abc123''] []],
        Inl (SourceCommandFailed ''fatal: bad object abc123''))
   \<and> error_message (SourceCommandFailed ''fatal: bad object abc123'')
       = ''Git command failed: fatal: bad object abc123''"
  using getDiff_failure [of "''commit:abc123''" "[''show'', ''abc123'']"
      "sample_world [] (Completed 0 ''true'' [])
         (Completed 1 ''partial'' ''fatal: bad object abc123'') ''Fix bug''"
      1 "''partial''" "''fatal: bad object abc123''"]
    getDiff_cmd_commit [of "''abc123''"]
  by (simp add: sample_world_def gitCommand_def path_env_def or_else_def)

subsection \<open>The repository probe\<close>

lemma isGitRepository_completed:
  "run w (gitCommand w) [''rev-parse'', ''--is-inside-work-tree''] (path_env w) = Completed c out err \<Longrightarrow>
   isGitRepository w =
     ([Spawn (gitCommand w) [''rev-parse'', ''--is-inside-work-tree''] (path_env w)], Inr (c = 0))"
  by (simp add: isGitRepository_def)

text \<open>
  C9, as stated, where the executable cannot be started: \<^verbatim>\<open>output()\<close> rejects,
  nothing in \<^verbatim>\<open>isGitRepository\<close> catches it, and the probe raises instead of
  evaluating to a boolean.
\<close>

theorem isGitRepository_counterexample:
  "isGitRepository (sample_world [] (SpawnFailed ''Failed to spawn /usr/bin/git: No such file or directory'')
         (SpawnFailed ''Failed to spawn /usr/bin/git: No such file or directory'') ''Fix bug'')
     = ([Spawn ''/usr/bin/git'' [''rev-parse'', ''--is-inside-work-tree''] []],
        Inl (RuntimeError ''Failed to spawn /usr/bin/git: No such file or directory''))"
  by (simp add: isGitRepository_def sample_world_def gitCommand_def path_env_def or_else_def)

text \<open>
  C9 (amended): whenever the version-control subprocess runs to an exit, the
  probe does not raise and evaluates to a boolean, true exactly for exit code
  zero, so that every non-zero exit means "not a repository"; when the executable
  cannot be started, the error of the runtime propagates out of the probe.
\<close>

theorem isGitRepository_boolean:
  "(run w (gitCommand w) [''rev-parse'', ''--is-inside-work-tree''] (path_env w) = Completed c out err
      \<longrightarrow> isGitRepository w =
            ([Spawn (gitCommand w) [''rev-parse'', ''--is-inside-work-tree''] (path_env w)], Inr (c = 0)))
   \<and> (run w (gitCommand w) [''rev-parse'', ''--is-inside-work-tree''] (path_env w) = SpawnFailed m
      \<longrightarrow> isGitRepository w =
            ([Spawn (gitCommand w) [''rev-parse'', ''--is-inside-work-tree''] (path_env w)],
             Inl (RuntimeError m)))"
  by (simp add: isGitRepository_def)

theorem isGitRepository_boolean_witness:
  "isGitRepository (sample_world [] (Completed 128 [] ''fatal: not a git repository'')
         (Completed 128 [] ''fatal: not a git repository'') ''Fix bug'')
     = ([Spawn ''/usr/bin/git'' [''rev-parse'', ''--is-inside-work-tree''] []], Inr False)
   \<and> isGitRepository (sample_world [] (Completed 0 ''true'' [])
         (Completed 0 [] []) ''Fix bug'')
     = ([Spawn ''/usr/bin/git'' [''rev-parse'', ''--is-inside-work-tree''] []], Inr True)
   \<and> isGitRepository (sample_world [] (SpawnFailed ''os error 2'')
         (SpawnFailed ''os error 2'') ''Fix bug'')
     = ([Spawn ''/usr/bin/git'' [''rev-parse'', ''--is-inside-work-tree''] []],
        Inl (RuntimeError ''os error 2''))"
  using isGitRepository_boolean [of
      "sample_world [] (Completed 128 [] ''fatal: not a git repository'')
         (Completed 128 [] ''fatal: not a git repository'') ''Fix bug''"
      128 "[]" "''fatal: not a git repository''"]
    isGitRepository_boolean [of
      "sample_world [] (Completed 0 ''true'' [])
         (Completed 0 [] []) ''Fix bug''" 0 "''true''" "[]"]
    isGitRepository_boolean [of
      "sample_world [] (SpawnFailed ''os error 2'')
         (SpawnFailed ''os error 2'') ''Fix bug''" _ _ _ "''os error 2''"]
  by (simp add: sample_world_def gitCommand_def path_env_def or_else_def)

subsection \<open>The backends\<close>

text \<open>
  C10: for the OpenAI and the Google backend alike, a credential variable set to
  the empty string is treated as an absent one: in both cases the factory fails
  with the missing-credential error naming the variable.
\<close>

theorem empty_credential:
  "(env w ''OPENAI_API_KEY'' = None \<or> env w ''OPENAI_API_KEY'' = Some []
      \<longrightarrow> createOpenAIService w = ([Construct OpenAI], Inl (MissingCredential ''OPENAI_API_KEY'')))
   \<and> (env w ''GOOGLE_API_KEY'' = None \<or> env w ''GOOGLE_API_KEY'' = Some []
      \<longrightarrow> createGoogleService w = ([Construct Google], Inl (MissingCredential ''GOOGLE_API_KEY'')))"
  by (auto simp: createOpenAIService_def createGoogleService_def or_else_def)

theorem empty_credential_witness:
  "createOpenAIService (sample_world [(''OPENAI_API_KEY'', []), (''GOOGLE_API_KEY'', [])] (Completed 0 ''true'' [])
         (Completed 0 [] []) ''Fix bug'')
     = ([Construct OpenAI], Inl (MissingCredential ''OPENAI_API_KEY''))
   \<and> createGoogleService (sample_world [(''OPENAI_API_KEY'', []), (''GOOGLE_API_KEY'', [])] (Completed 0 ''true'' [])
         (Completed 0 [] []) ''Fix bug'')
     = ([Construct Google], Inl (MissingCredential ''GOOGLE_API_KEY''))
   \<and> createOpenAIService (sample_world [] (Completed 0 ''true'' [])
         (Completed 0 [] []) ''Fix bug'')
     = createOpenAIService (sample_world [(''OPENAI_API_KEY'', []), (''GOOGLE_API_KEY'', [])] (Completed 0 ''true'' [])
         (Completed 0 [] []) ''Fix bug'')
   \<and> createGoogleService (sample_world [] (Completed 0 ''true'' [])
         (Completed 0 [] []) ''Fix bug'')
     = createGoogleService (sample_world [(''OPENAI_API_KEY'', []), (''GOOGLE_API_KEY'', [])] (Completed 0 ''true'' [])
         (Completed 0 [] []) ''Fix bug'')"
  using empty_credential [of "sample_world [(''OPENAI_API_KEY'', []), (''GOOGLE_API_KEY'', [])] (Completed 0 ''true'' [])
         (Completed 0 [] []) ''Fix bug''"]
    empty_credential [of "sample_world [] (Completed 0 ''true'' [])
         (Completed 0 [] []) ''Fix bug''"]
  by (simp add: sample_world_def)

text \<open>
  C7: selecting \<^verbatim>\<open>claude\<close> yields the placeholder backend, and its
  \<^verbatim>\<open>generateMessage\<close> fails with the not-implemented error for every diff text,
  the empty one included; besides the zero-length timer it performs no effect, in
  particular no request to either endpoint, and it never returns a message.
\<close>

theorem claude_not_implemented:
  "selectService w ''claude'' = ([Construct Claude], Inr ClaudeService)
   \<and> generateMessage w ClaudeService diff = ([Generate Claude diff, SetTimeout 0], Inl NotImplemented)
   \<and> generateMessage w ClaudeService [] = ([Generate Claude [], SetTimeout 0], Inl NotImplemented)
   \<and> (\<forall>key p. HttpPost key p \<notin> set (fst (generateMessage w ClaudeService diff))
              \<and> SdkCall key p \<notin> set (fst (generateMessage w ClaudeService diff)))
   \<and> (\<forall>m. snd (generateMessage w ClaudeService diff) \<noteq> Inr m)
   \<and> error_message NotImplemented = ''Claude service not implemented yet''"
  by (simp add: selectService_def createClaudeService_def claude_generateMessage_def)

subsection \<open>The orchestrator\<close>

lemma main_in_repository:
  assumes "\<not> help_flag a"
      and "run w (gitCommand w) [''rev-parse'', ''--is-inside-work-tree''] (path_env w) = Completed 0 out err"
  shows "main w a =
     bind_io ([Spawn (gitCommand w) [''rev-parse'', ''--is-inside-work-tree''] (path_env w)], Inr True) (\<lambda>repo.
          if ai a \<notin> set supportedProviders then ([], Inl (UnsupportedProvider (ai a)))
          else
            bind_io (selectService w (ai a)) (\<lambda>aiService.
            bind_io (getDiff w (source a)) (\<lambda>diff.
              if trim diff = [] then ([Log ''No changes to generate a message for.''], Inr ())
              else
                bind_io (if verbose a then ([Log ''Original Diff:'', Log diff], Inr ())
                         else ([], Inr ())) (\<lambda>_.
                bind_io (generateMessage w aiService diff) (\<lambda>message.
                  ([Log ''Suggested Commit Message:'', Log message]
                     @ (if command a
                        then [Log (CHR 0x0A # ''Run the following command to commit:''),
                              Log (''git commit -m '' @ [CHR 0x22] @ message @ [CHR 0x22])]
                        else []),
                   Inr ()))))))"
  using assms by (simp add: main_def isGitRepository_completed bind_io_def)

text \<open>
  C3, as stated, at the provider \<^verbatim>\<open>foo\<close>: outside a repository the run ends with
  the not-a-repository message and no failure at all, and inside one the
  unsupported-provider failure comes after the probe has been spawned.
\<close>

theorem unsupported_provider_counterexample:
  "main (sample_world [] (Completed 128 [] ''fatal: not a git repository'')
         (Completed 128 [] ''fatal: not a git repository'') ''Fix bug'')
        \<lparr>ai = ''foo'', source = ''staged'', help_flag = False, verbose = False, command = False\<rparr>
     = ([Spawn ''/usr/bin/git'' [''rev-parse'', ''--is-inside-work-tree''] [],
         LogError ''Not a Git repository.''], Inr ())
   \<and> main (sample_world [] (Completed 0 ''true'' [])
         (Completed 0 [] []) ''Fix bug'')
        \<lparr>ai = ''foo'', source = ''staged'', help_flag = False, verbose = False, command = False\<rparr>
     = ([Spawn ''/usr/bin/git'' [''rev-parse'', ''--is-inside-work-tree''] []],
        Inl (UnsupportedProvider ''foo''))"
  by (simp add: main_def bind_io_def isGitRepository_def sample_world_def gitCommand_def
        path_env_def or_else_def supportedProviders_def)

lemma main_outside_repository:
  assumes "\<not> help_flag a"
      and "run w (gitCommand w) [''rev-parse'', ''--is-inside-work-tree''] (path_env w) = Completed c out err"
      and "c \<noteq> 0"
  shows "main w a =
           ([Spawn (gitCommand w) [''rev-parse'', ''--is-inside-work-tree''] (path_env w),
             LogError ''Not a Git repository.''], Inr ())"
  using assms by (simp add: main_def isGitRepository_completed bind_io_def)

text \<open>
  C3 (amended): for every provider string outside \<^verbatim>\<open>openai\<close>, \<^verbatim>\<open>claude\<close>,
  \<^verbatim>\<open>google\<close>, when help is not asked for and the repository probe has exited
  with code zero, the orchestrator fails with the unsupported-provider error,
  whose message lists the three allowed names; the probe is the only effect of
  that run, so no backend factory is entered and the diff is not resolved. When
  the probe exits with any other code, the run prints \<^verbatim>\<open>Not a Git repository.\<close>
  on the error stream after the probe and ends without raising anything.
\<close>

theorem unsupported_provider:
  assumes "ai a \<notin> {''openai'', ''claude'', ''google''}"
      and "\<not> help_flag a"
      and "run w (gitCommand w) [''rev-parse'', ''--is-inside-work-tree''] (path_env w) = Completed c out err"
  shows "(c = 0 \<longrightarrow>
            main w a =
              ([Spawn (gitCommand w) [''rev-parse'', ''--is-inside-work-tree''] (path_env w)],
               Inl (UnsupportedProvider (ai a))))
       \<and> (c \<noteq> 0 \<longrightarrow>
            main w a =
              ([Spawn (gitCommand w) [''rev-parse'', ''--is-inside-work-tree''] (path_env w),
                LogError ''Not a Git repository.''], Inr ()))
       \<and> error_message (UnsupportedProvider (ai a)) =
             ''Unsupported AI provider: '' @ ai a @ ''. Supported providers: openai, claude, google''"
proof (intro conjI impI)
  assume "c = 0"
  with assms(3) have p: "run w (gitCommand w) [''rev-parse'', ''--is-inside-work-tree''] (path_env w)
      = Completed 0 out err" by simp
  show "main w a =
              ([Spawn (gitCommand w) [''rev-parse'', ''--is-inside-work-tree''] (path_env w)],
               Inl (UnsupportedProvider (ai a)))"
    using assms(1) by (simp add: main_in_repository [OF assms(2) p] bind_io_def supportedProviders_def)
next
  assume "c \<noteq> 0"
  then show "main w a =
              ([Spawn (gitCommand w) [''rev-parse'', ''--is-inside-work-tree''] (path_env w),
                LogError ''Not a Git repository.''], Inr ())"
    by (rule main_outside_repository [OF assms(2,3)])
next
  show "error_message (UnsupportedProvider (ai a)) =
             ''Unsupported AI provider: '' @ ai a @ ''. Supported providers: openai, claude, google''"
    by simp
qed

theorem unsupported_provider_witness:
  "main (sample_world [] (Completed 0 ''true'' []) (Completed 0 [] []) ''Fix bug'')
        \<lparr>ai = ''gpt'', source = ''staged'', help_flag = False, verbose = False, command = False\<rparr>
     = ([Spawn ''/usr/bin/git'' [''rev-parse'', ''--is-inside-work-tree''] []],
        Inl (UnsupportedProvider ''gpt''))
   \<and> main (sample_world [] (Completed 1 [] ''fatal: not a git repository'')
               (Completed 1 [] ''fatal: not a git repository'') ''Fix bug'')
        \<lparr>ai = ''gpt'', source = ''staged'', help_flag = False, verbose = False, command = False\<rparr>
     = ([Spawn ''/usr/bin/git'' [''rev-parse'', ''--is-inside-work-tree''] [],
         LogError ''Not a Git repository.''], Inr ())
   \<and> error_message (UnsupportedProvider ''gpt'')
       = ''Unsupported AI provider: gpt. Supported providers: openai, claude, google''"
  using unsupported_provider [of
      "\<lparr>ai = ''gpt'', source = ''staged'', help_flag = False, verbose = False, command = False\<rparr>"
      "sample_world [] (Completed 0 ''true'' []) (Completed 0 [] []) ''Fix bug''" 0 "''true''" "[]"]
    unsupported_provider [of
      "\<lparr>ai = ''gpt'', source = ''staged'', help_flag = False, verbose = False, command = False\<rparr>"
      "sample_world [] (Completed 1 [] ''fatal: not a git repository'')
               (Completed 1 [] ''fatal: not a git repository'') ''Fix bug''"
      1 "[]" "''fatal: not a git repository''"]
  by (simp add: sample_world_def gitCommand_def path_env_def or_else_def)

lemma selectService_supported:
  "selectService w p = (t, Inr svc) \<Longrightarrow> p \<in> set supportedProviders"
  by (auto simp: selectService_def supportedProviders_def split: if_splits)

lemma selectService_cases:
  "selectService w p = ([], Inl InvalidProvider)
   \<or> (\<exists>q r. selectService w p = ([Construct q], r))"
  by (simp add: selectService_def createOpenAIService_def createGoogleService_def
        createClaudeService_def Let_def)

lemma isGitRepository_cases:
  "\<exists>r. isGitRepository w =
     ([Spawn (gitCommand w) [''rev-parse'', ''--is-inside-work-tree''] (path_env w)], r)"
  by (simp add: isGitRepository_def Let_def)

lemma getDiff_ok:
  assumes "getDiff_cmd s = Inr cmd"
      and "run w (gitCommand w) cmd (path_env w) = Completed 0 out err"
  shows "getDiff w s =
           ([Log (''Running git command: '' @ join '' '' (gitCommand w # cmd)),
             Spawn (gitCommand w) cmd (path_env w)], Inr out)"
  using assms by (simp add: getDiff_run)

lemma printed_append: "printed (xs @ ys) = printed xs @ printed ys"
  by (induction xs rule: printed.induct) simp_all

text \<open>A text is trimmed to nothing exactly when it is empty or all blank.\<close>

lemma trim_blank: "trim s = [] \<longleftrightarrow> (\<forall>c\<in>set s. is_space c)"
proof
  assume "trim s = []"
  then have all: "\<forall>y\<in>set (dropWhile is_space s). is_space y"
    by (simp add: trim_def)
  have "dropWhile is_space s = []"
  proof (cases "dropWhile is_space s")
    case Nil
    then show ?thesis .
  next
    case (Cons x xs)
    then have "\<not> is_space x"
      using hd_dropWhile [of is_space s] by simp
    with all Cons show ?thesis by simp
  qed
  then show "\<forall>c\<in>set s. is_space c" by simp
next
  assume "\<forall>c\<in>set s. is_space c"
  then have "dropWhile is_space s = []" by simp
  then show "trim s = []" by (simp only: trim_def dropWhile.simps rev.simps)
qed

text \<open>
  C4, as stated, at the selector \<^verbatim>\<open>foo\<close>: were the diff source validated before
  the backend is constructed, the run would fail with the invalid-selector error
  and enter no factory. Without a credential it fails with the missing-credential
  error instead, and with one the factory is entered before the selector is
  rejected: the selector is only looked at inside the resolver.
\<close>

theorem missing_credential_counterexample:
  "main (sample_world [] (Completed 0 ''true'' [])
         (Completed 0 [] []) ''Fix bug'')
        \<lparr>ai = ''openai'', source = ''foo'', help_flag = False, verbose = False, command = False\<rparr>
     = ([Spawn ''/usr/bin/git'' [''rev-parse'', ''--is-inside-work-tree''] [], Construct OpenAI],
        Inl (MissingCredential ''OPENAI_API_KEY''))
   \<and> main (sample_world [(''OPENAI_API_KEY'', ''sk-test'')] (Completed 0 ''true'' [])
         (Completed 0 [] []) ''Fix bug'')
        \<lparr>ai = ''openai'', source = ''foo'', help_flag = False, verbose = False, command = False\<rparr>
     = ([Spawn ''/usr/bin/git'' [''rev-parse'', ''--is-inside-work-tree''] [], Construct OpenAI],
        Inl InvalidSelector)"
  by (simp add: main_def bind_io_def isGitRepository_def sample_world_def gitCommand_def
        path_env_def or_else_def supportedProviders_def selectService_def createOpenAIService_def
        getDiff_def getDiff_cmd_def startsWith_def)

text \<open>
  C4 (amended): with provider \<^verbatim>\<open>openai\<close>, help not asked for and the repository
  probe passed, an absent credential makes the run fail with the
  missing-credential error in the backend factory; the probe and the entry into
  the factory are its only effects, so diff resolution is never requested,
  whatever the selector. With a credential, the effects of the resolver follow
  the entry into the factory, and a selector the resolver rejects fails the run
  there: construction comes after the probe and the provider check, and before
  both the validation of the diff source and the retrieval of the diff.
\<close>

theorem missing_credential_order:
  assumes "\<not> help_flag a"
      and "ai a = ''openai''"
      and "run w (gitCommand w) [''rev-parse'', ''--is-inside-work-tree''] (path_env w) = Completed 0 out err"
  shows "(env w ''OPENAI_API_KEY'' = None \<longrightarrow>
            main w a =
              ([Spawn (gitCommand w) [''rev-parse'', ''--is-inside-work-tree''] (path_env w),
                Construct OpenAI],
               Inl (MissingCredential ''OPENAI_API_KEY'')))
       \<and> (\<forall>key. env w ''OPENAI_API_KEY'' = Some key \<and> key \<noteq> [] \<longrightarrow>
            (\<exists>rest. fst (main w a) =
               [Spawn (gitCommand w) [''rev-parse'', ''--is-inside-work-tree''] (path_env w),
                Construct OpenAI] @ fst (getDiff w (source a)) @ rest)
            \<and> (\<forall>e. getDiff_cmd (source a) = Inl e \<longrightarrow>
                 main w a =
                   ([Spawn (gitCommand w) [''rev-parse'', ''--is-inside-work-tree''] (path_env w),
                     Construct OpenAI], Inl e)))"
proof (intro conjI impI allI)
  assume "env w ''OPENAI_API_KEY'' = None"
  then show "main w a =
              ([Spawn (gitCommand w) [''rev-parse'', ''--is-inside-work-tree''] (path_env w),
                Construct OpenAI],
               Inl (MissingCredential ''OPENAI_API_KEY''))"
    using assms(2)
    by (simp add: main_in_repository [OF assms(1,3)] bind_io_def supportedProviders_def
          selectService_def createOpenAIService_def or_else_def)
next
  fix key
  assume k: "env w ''OPENAI_API_KEY'' = Some key \<and> key \<noteq> []"
  then have sel: "selectService w (ai a) = ([Construct OpenAI], Inr (OpenAIService key))"
    using assms(2) by (simp add: selectService_def createOpenAIService_def or_else_def)
  show "\<exists>rest. fst (main w a) =
               [Spawn (gitCommand w) [''rev-parse'', ''--is-inside-work-tree''] (path_env w),
                Construct OpenAI] @ fst (getDiff w (source a)) @ rest"
    using assms(2) sel
    by (cases "getDiff w (source a)")
       (auto simp: main_in_repository [OF assms(1,3)] bind_io_def supportedProviders_def
          split: sum.splits prod.splits)
next
  fix key e
  assume k: "env w ''OPENAI_API_KEY'' = Some key \<and> key \<noteq> []"
    and bad: "getDiff_cmd (source a) = Inl e"
  from k have sel: "selectService w (ai a) = ([Construct OpenAI], Inr (OpenAIService key))"
    using assms(2) by (simp add: selectService_def createOpenAIService_def or_else_def)
  from bad have "getDiff w (source a) = ([], Inl e)"
    by (simp add: getDiff_def)
  then show "main w a =
                   ([Spawn (gitCommand w) [''rev-parse'', ''--is-inside-work-tree''] (path_env w),
                     Construct OpenAI], Inl e)"
    using assms(2) sel
    by (simp add: main_in_repository [OF assms(1,3)] bind_io_def supportedProviders_def)
qed


theorem missing_credential_order_witness:
  "main (sample_world [] (Completed 0 ''true'' [])
         (Completed 0 [] []) ''Fix bug'')
        \<lparr>ai = ''openai'', source = ''staged'', help_flag = False, verbose = False, command = False\<rparr>
     = ([Spawn ''/usr/bin/git'' [''rev-parse'', ''--is-inside-work-tree''] [], Construct OpenAI],
        Inl (MissingCredential ''OPENAI_API_KEY''))
   \<and> main (sample_world [(''OPENAI_API_KEY'', ''sk-test'')] (Completed 0 ''true'' [])
         (Completed 0 [] []) ''Fix bug'')
        \<lparr>ai = ''openai'', source = ''nonsense'', help_flag = False, verbose = False, command = False\<rparr>
     = ([Spawn ''/usr/bin/git'' [''rev-parse'', ''--is-inside-work-tree''] [], Construct OpenAI],
        Inl InvalidSelector)"
  using missing_credential_order [of
      "\<lparr>ai = ''openai'', source = ''staged'', help_flag = False, verbose = False, command = False\<rparr>"
      "sample_world [] (Completed 0 ''true'' [])
         (Completed 0 [] []) ''Fix bug''" "''true''" "[]"]
    missing_credential_order [of
      "\<lparr>ai = ''openai'', source = ''nonsense'', help_flag = False, verbose = False, command = False\<rparr>"
      "sample_world [(''OPENAI_API_KEY'', ''sk-test'')] (Completed 0 ''true'' [])
         (Completed 0 [] []) ''Fix bug''" "''true''" "[]"]
  by (simp add: sample_world_def gitCommand_def path_env_def or_else_def getDiff_cmd_def
        startsWith_def)

text \<open>
  C2, as stated, on an empty staged diff: the run prints two lines, the command
  line that the resolver logs and then the message, not the message alone.
\<close>

theorem blank_diff_counterexample:
  "printed (program
      (sample_world [] (Completed 0 ''true'' [])
         (Completed 0 [] [])
         ''Fix bug'')
      \<lparr>ai = ''claude'', source = ''staged'', help_flag = False, verbose = False, command = False\<rparr>)
     = [''Running git command: /usr/bin/git diff --cached'',
        ''No changes to generate a message for.'']
   \<and> printed (program
      (sample_world [] (Completed 0 ''true'' [])
         (Completed 0 [] [])
         ''Fix bug'')
      \<lparr>ai = ''claude'', source = ''staged'', help_flag = False, verbose = False, command = False\<rparr>)
     \<noteq> [''No changes to generate a message for.'']"
  by (simp add: program_def main_def bind_io_def isGitRepository_def sample_world_def gitCommand_def
        path_env_def or_else_def supportedProviders_def selectService_def createClaudeService_def
        getDiff_def getDiff_cmd_def trim_def)

lemma effects_of_blank_run:
  assumes "getDiff_cmd (source a) = Inr cmd"
      and "run w (gitCommand w) cmd (path_env w) = Completed 0 diff err"
      and "trim diff = []"
      and "e \<in> set (program w a)"
  shows "(\<exists>l. e = Log l) \<or> (\<exists>l. e = LogError l) \<or> (\<exists>x y z. e = Spawn x y z)
         \<or> (\<exists>n. e = Exit n) \<or> (\<exists>q. e = Construct q)"
proof -
  obtain r where probe: "isGitRepository w =
     ([Spawn (gitCommand w) [''rev-parse'', ''--is-inside-work-tree''] (path_env w)], r)"
    using isGitRepository_cases by blast
  note d = getDiff_ok [OF assms(1,2)]
  from selectService_cases [of w "ai a"] show ?thesis
  proof
    assume "selectService w (ai a) = ([], Inl InvalidProvider)"
    with assms(3,4) probe d show ?thesis
      by (auto simp: program_def main_def bind_io_def split: if_splits sum.splits)
  next
    assume "\<exists>q r. selectService w (ai a) = ([Construct q], r)"
    then obtain q r' where "selectService w (ai a) = ([Construct q], r')" by blast
    with assms(3,4) probe d show ?thesis
      by (auto simp: program_def main_def bind_io_def split: if_splits sum.splits)
  qed
qed

text \<open>
  C2 (amended): when the resolved diff text is empty or all blank, no run enters
  a backend's \<^verbatim>\<open>generateMessage\<close> or contacts an endpoint. A run that reaches
  the resolver (help not asked for, probe passed, backend constructed) adds one
  line to the effects of those steps, \<^verbatim>\<open>No changes to generate a message for.\<close>,
  and ends without error; its printed lines are the resolver's command line and
  that message, in this order.
\<close>

theorem blank_diff:
  assumes "getDiff_cmd (source a) = Inr cmd"
      and "run w (gitCommand w) cmd (path_env w) = Completed 0 diff err"
      and "\<forall>c\<in>set diff. is_space c"
  shows "(\<forall>p d. Generate p d \<notin> set (program w a))
       \<and> (\<forall>key p. HttpPost key p \<notin> set (program w a) \<and> SdkCall key p \<notin> set (program w a))
       \<and> (\<not> help_flag a \<and> snd (isGitRepository w) = Inr True
            \<and> (\<exists>svc. snd (selectService w (ai a)) = Inr svc) \<longrightarrow>
            main w a =
              (fst (isGitRepository w) @ fst (selectService w (ai a)) @ fst (getDiff w (source a))
                 @ [Log ''No changes to generate a message for.''], Inr ())
            \<and> printed (program w a) =
                [''Running git command: '' @ join '' '' (gitCommand w # cmd),
                 ''No changes to generate a message for.''])"
proof -
  from assms(3) have blank: "trim diff = []" by (simp add: trim_blank)
  note tr = effects_of_blank_run [OF assms(1,2) blank]
  have g: "\<forall>p d. Generate p d \<notin> set (program w a)"
    using tr by blast
  have n: "\<forall>key p. HttpPost key p \<notin> set (program w a) \<and> SdkCall key p \<notin> set (program w a)"
    using tr by blast
  have r: "main w a =
              (fst (isGitRepository w) @ fst (selectService w (ai a)) @ fst (getDiff w (source a))
                 @ [Log ''No changes to generate a message for.''], Inr ())
            \<and> printed (program w a) =
                [''Running git command: '' @ join '' '' (gitCommand w # cmd),
                 ''No changes to generate a message for.'']"
    if h: "\<not> help_flag a" and p: "snd (isGitRepository w) = Inr True"
      and s: "snd (selectService w (ai a)) = Inr svc" for svc
  proof -
    obtain r where probe: "isGitRepository w =
       ([Spawn (gitCommand w) [''rev-parse'', ''--is-inside-work-tree''] (path_env w)], r)"
      using isGitRepository_cases by blast
    with p have probe': "isGitRepository w =
       ([Spawn (gitCommand w) [''rev-parse'', ''--is-inside-work-tree''] (path_env w)], Inr True)"
      by simp
    from s selectService_cases [of w "ai a"] obtain q where
      sel: "selectService w (ai a) = ([Construct q], Inr svc)"
      by auto
    then have sup: "ai a \<in> set supportedProviders"
      by (rule selectService_supported)
    note d = getDiff_ok [OF assms(1,2)]
    have m: "main w a =
       ([Spawn (gitCommand w) [''rev-parse'', ''--is-inside-work-tree''] (path_env w), Construct q,
         Log (''Running git command: '' @ join '' '' (gitCommand w # cmd)),
         Spawn (gitCommand w) cmd (path_env w),
         Log ''No changes to generate a message for.''], Inr ())"
      using h probe' sel sup d blank by (simp add: main_def bind_io_def)
    then show ?thesis
      using probe' sel d by (simp add: program_def)
  qed
  from g n r show ?thesis by blast
qed


theorem blank_diff_witness:
  "program
      (sample_world [] (Completed 0 ''true'' [])
         (Completed 0 [CHR 0x20, CHR 0x0A] [])
         ''Fix bug'')
      \<lparr>ai = ''claude'', source = ''staged'', help_flag = False, verbose = True, command = True\<rparr>
     = [Spawn ''/usr/bin/git'' [''rev-parse'', ''--is-inside-work-tree''] [],
        Construct Claude,
        Log ''Running git command: /usr/bin/git diff --cached'',
        Spawn ''/usr/bin/git'' [''diff'', ''--cached''] [],
        Log ''No changes to generate a message for.'']"
  using blank_diff [of
      "\<lparr>ai = ''claude'', source = ''staged'', help_flag = False, verbose = True, command = True\<rparr>"
      "[''diff'', ''--cached'']"
      "sample_world [] (Completed 0 ''true'' [])
         (Completed 0 [CHR 0x20, CHR 0x0A] [])
         ''Fix bug''"
      "[CHR 0x20, CHR 0x0A]" "[]"]
  by (simp add: program_def isGitRepository_def sample_world_def gitCommand_def
        path_env_def or_else_def selectService_def createClaudeService_def
        getDiff_def getDiff_cmd_def is_space_def)

text \<open>
  C8, as stated, for a message with a line feed inside: \<^verbatim>\<open>trim\<close> keeps inner
  line feeds, so for the message \<^verbatim>\<open>Fix bug\<close>, an empty line, \<^verbatim>\<open>- handle null\<close>
  the final line of the output is \<^verbatim>\<open>- handle null\<close> and a double quote, not the
  whole command.
\<close>

theorem commit_command_line_counterexample:
  "last (output_lines (program
      (sample_world [(''OPENAI_API_KEY'', ''sk-test'')] (Completed 0 ''true'' [])
         (Completed 0 ''diff --git a/x b/x'' [])
         (''Fix bug'' @ [CHR 0x0A, CHR 0x0A] @ ''- handle null''))
      \<lparr>ai = ''openai'', source = ''staged'', help_flag = False, verbose = False, command = True\<rparr>))
     = ''- handle null'' @ [CHR 0x22]
   \<and> last (output_lines (program
      (sample_world [(''OPENAI_API_KEY'', ''sk-test'')] (Completed 0 ''true'' [])
         (Completed 0 ''diff --git a/x b/x'' [])
         (''Fix bug'' @ [CHR 0x0A, CHR 0x0A] @ ''- handle null''))
      \<lparr>ai = ''openai'', source = ''staged'', help_flag = False, verbose = False, command = True\<rparr>))
     \<noteq> ''git commit -m '' @ [CHR 0x22]
         @ (''Fix bug'' @ [CHR 0x0A, CHR 0x0A] @ ''- handle null'') @ [CHR 0x22]"
  by (simp add: output_lines_def program_def main_def bind_io_def isGitRepository_def
        sample_world_def gitCommand_def path_env_def or_else_def supportedProviders_def
        selectService_def createOpenAIService_def getDiff_def getDiff_cmd_def
        openai_generateMessage_def trim_def is_space_def)

lemma split_whole: "sep \<notin> set s \<Longrightarrow> split sep s = [s]"
  by (induction s) auto

lemma last_output_lines:
  "last (output_lines (t @ [Log s])) = last (split (CHR 0x0A) s)"
  by (simp add: output_lines_def printed_append split_nonempty)

text \<open>
  C8 (amended): when the command flag is set and generation succeeds with message
  \<open>m\<close>, the run ends without error and its last \<^verbatim>\<open>console.log\<close> call writes
  exactly \<^verbatim>\<open>git commit -m\<close>, a space, a double quote, \<open>m\<close> as it is, and a
  double quote: nothing inside \<open>m\<close> is escaped. The final line of the output is
  the last of the lines this text is cut into by its line feeds; when \<open>m\<close> has no
  line feed it is the whole text, as for the message \<^verbatim>\<open>Fix bug\<close> in the instance
  below.
\<close>

theorem commit_command_line:
  assumes "\<not> help_flag a" and "command a"
      and "run w (gitCommand w) [''rev-parse'', ''--is-inside-work-tree''] (path_env w) = Completed 0 out err"
      and "selectService w (ai a) = (t2, Inr svc)"
      and "getDiff w (source a) = (t3, Inr diff)"
      and "trim diff \<noteq> []"
      and "generateMessage w svc diff = (t5, Inr m)"
  shows "snd (main w a) = Inr ()
       \<and> last (program w a) = Log (''git commit -m '' @ [CHR 0x22] @ m @ [CHR 0x22])
       \<and> last (printed (program w a)) = ''git commit -m '' @ [CHR 0x22] @ m @ [CHR 0x22]
       \<and> last (output_lines (program w a))
           = last (split (CHR 0x0A) (''git commit -m '' @ [CHR 0x22] @ m @ [CHR 0x22]))
       \<and> (CHR 0x0A \<notin> set m \<longrightarrow>
            last (output_lines (program w a)) = ''git commit -m '' @ [CHR 0x22] @ m @ [CHR 0x22])"
proof -
  have sup: "ai a \<in> set supportedProviders"
    using assms(4) by (rule selectService_supported)
  have m: "main w a =
     ((Spawn (gitCommand w) [''rev-parse'', ''--is-inside-work-tree''] (path_env w) # t2 @ t3
         @ (if verbose a then [Log ''Original Diff:'', Log diff] else []) @ t5
         @ [Log ''Suggested Commit Message:'', Log m,
            Log (CHR 0x0A # ''Run the following command to commit:'')])
       @ [Log (''git commit -m '' @ [CHR 0x22] @ m @ [CHR 0x22])], Inr ())"
    using sup assms(2,4,5,6,7)
    by (simp add: main_in_repository [OF assms(1,3)] bind_io_def)
  then have p: "program w a =
      (Spawn (gitCommand w) [''rev-parse'', ''--is-inside-work-tree''] (path_env w) # t2 @ t3
         @ (if verbose a then [Log ''Original Diff:'', Log diff] else []) @ t5
         @ [Log ''Suggested Commit Message:'', Log m,
            Log (CHR 0x0A # ''Run the following command to commit:'')])
       @ [Log (''git commit -m '' @ [CHR 0x22] @ m @ [CHR 0x22])]"
    by (simp add: program_def)
  have l: "last (output_lines (program w a))
           = last (split (CHR 0x0A) (''git commit -m '' @ [CHR 0x22] @ m @ [CHR 0x22]))"
    unfolding p by (rule last_output_lines)
  have w: "last (output_lines (program w a)) = ''git commit -m '' @ [CHR 0x22] @ m @ [CHR 0x22]"
    if "CHR 0x0A \<notin> set m"
  proof -
    have "CHR 0x0A \<notin> set (''git commit -m '' @ [CHR 0x22] @ m @ [CHR 0x22])"
      using that by simp
    then have "split (CHR 0x0A) (''git commit -m '' @ [CHR 0x22] @ m @ [CHR 0x22])
        = [''git commit -m '' @ [CHR 0x22] @ m @ [CHR 0x22]]"
      by (rule split_whole)
    then show ?thesis
      unfolding l by (simp only: last.simps refl if_True)
  qed
  from m p l w show ?thesis
    by (simp add: printed_append del: append_assoc)
qed

theorem commit_command_line_witness:
  "last (output_lines (program
      (sample_world [(''OPENAI_API_KEY'', ''sk-test'')] (Completed 0 ''true'' [])
         (Completed 0 ''diff --git a/x b/x'' []) ''Fix bug'')
      \<lparr>ai = ''openai'', source = ''staged'', help_flag = False, verbose = False, command = True\<rparr>))
     = ''git commit -m '' @ [CHR 0x22] @ ''Fix bug'' @ [CHR 0x22]"
  using commit_command_line [of
      "\<lparr>ai = ''openai'', source = ''staged'', help_flag = False, verbose = False, command = True\<rparr>"
      "sample_world [(''OPENAI_API_KEY'', ''sk-test'')] (Completed 0 ''true'' [])
         (Completed 0 ''diff --git a/x b/x'' []) ''Fix bug''"
      "''true''" "[]" "[Construct OpenAI]" "OpenAIService ''sk-test''"
      "[Log ''Running git command: /usr/bin/git diff --cached'',
        Spawn ''/usr/bin/git'' [''diff'', ''--cached''] []]"
      "''diff --git a/x b/x''"
      "[Generate OpenAI ''diff --git a/x b/x'', HttpPost ''sk-test'' (prompt ''diff --git a/x b/x'')]"
      "''Fix bug''"]
  by (simp add: sample_world_def gitCommand_def path_env_def or_else_def selectService_def
        createOpenAIService_def getDiff_def getDiff_cmd_def openai_generateMessage_def
        trim_def is_space_def)

end
